theory Spec2Isabelle
  imports Complex_Main "HOL-Library.Log_Nat" "HOL-Library.Signed_Division"
begin

section \<open>go-benchmarks: a shallow embedding\<close>

text \<open>
  The package has two source files: the duration pretty-printer (\<^verbatim>\<open>prettyprint.go\<close>) and
  the benchmark runner (\<^verbatim>\<open>Options\<close>, its setters, \<^verbatim>\<open>benchmarkOneFunc\<close> and
  \<^verbatim>\<open>Done\<close>).

  Conventions of the embedding.
  \<^item> A Go \<^verbatim>\<open>string\<close> is a sequence of bytes: \<^typ>\<open>string\<close>, one \<^typ>\<open>char\<close> per byte.
    The micro sign of \<^verbatim>\<open>"\<mu>s"\<close> is the two bytes \<^verbatim>\<open>0xC2 0xB5\<close> of its UTF-8 encoding.
  \<^item> \<^verbatim>\<open>int\<close>, \<^verbatim>\<open>int64\<close> and \<^verbatim>\<open>time.Duration\<close> (64-bit on the supported platforms) are
    \<^typ>\<open>int\<close>; where the source can leave the 64-bit range (the running total and the
    counter of the collection loop) the wrap-around is written out with \<open>wrap64\<close>.
    Go's \<^verbatim>\<open>/\<close> on integers truncates toward zero: \<open>sdiv\<close>.
  \<^item> \<^verbatim>\<open>float64\<close> is a datatype of the IEEE-754 binary64 values, with conversion from
    integers and division rounded to nearest, ties to even.
  \<^item> The functions of the Go standard library that the source calls (\<^verbatim>\<open>fmt\<close> verbs,
    \<^verbatim>\<open>utf8.RuneCountInString\<close>, \<^verbatim>\<open>strings.Repeat\<close>) are modelled after their
    documented behaviour; the third-party quantile package is a parameter.
\<close>

subsection \<open>Integers and their decimal rendering\<close>

definition wrap64 :: "int \<Rightarrow> int" where
  "wrap64 x = (x + 2 ^ 63) mod 2 ^ 64 - 2 ^ 63"

definition digit_char :: "nat \<Rightarrow> char" where
  "digit_char d = ''0123456789'' ! d"

fun show_nat :: "nat \<Rightarrow> string" where
  "show_nat n = (if n < 10 then [digit_char n] else show_nat (n div 10) @ [digit_char (n mod 10)])"

declare show_nat.simps [simp del]

text \<open>The verb \<^verbatim>\<open>%d\<close>.\<close>

definition show_int :: "int \<Rightarrow> string" where
  "show_int i = (if i < 0 then ''-'' @ show_nat (nat (- i)) else show_nat (nat i))"

definition zero_pad :: "nat \<Rightarrow> string \<Rightarrow> string" where
  "zero_pad w s = replicate (w - length s) (CHR ''0'') @ s"

text \<open>
  The verb \<^verbatim>\<open>%02d\<close>: the digits are padded with zeros to the width, less one when a sign
  is written.
\<close>

definition fmt_02d :: "int \<Rightarrow> string" where
  "fmt_02d i = (if i < 0 then ''-'' @ zero_pad 1 (show_nat (nat (- i)))
                else zero_pad 2 (show_nat (nat i)))"

subsection \<open>IEEE-754 binary64\<close>

text \<open>
  \<open>Finite s m e\<close> is the value \<open>(-1)\<^sup>s \<sqdot> m \<sqdot> 2\<^sup>e\<close>. The operations below produce zero
  as \<open>m = 0, e = 0\<close>, normal numbers with \<open>2\<^sup>5\<^sup>2 \<le> m < 2\<^sup>5\<^sup>3\<close> and subnormal numbers with
  \<open>e = -1074\<close>.
\<close>

datatype float64 = Finite bool nat int | Infinity bool | NaN

text \<open>The integer nearest to \<open>a / b\<close>, ties to the even one (\<open>0 < b\<close>).\<close>

definition round_half_even :: "nat \<Rightarrow> nat \<Rightarrow> nat" where
  "round_half_even a b =
     (let q = a div b; r = a mod b
      in if 2 * r < b then q
         else if b < 2 * r then q + 1
         else if even q then q else q + 1)"

text \<open>The integer \<open>\<lfloor>log\<^sub>2 (a / b)\<rfloor>\<close> for \<open>0 < a\<close> and \<open>0 < b\<close>.\<close>

definition floor_log2_ratio :: "nat \<Rightarrow> nat \<Rightarrow> int" where
  "floor_log2_ratio a b =
     (let l = int (floorlog 2 a) - int (floorlog 2 b)
      in if (if 0 \<le> l then b * 2 ^ nat l \<le> a else b \<le> a * 2 ^ nat (- l)) then l else l - 1)"

text \<open>
  The binary64 value nearest to \<open>(-1)\<^sup>s \<sqdot> a / b\<close> (\<open>0 < b\<close>): 53 significant bits, exponent
  not below \<open>-1074\<close>, infinity from \<open>2\<^sup>1\<^sup>0\<^sup>2\<^sup>4\<close> on.
\<close>

definition round_to_float64 :: "bool \<Rightarrow> nat \<Rightarrow> nat \<Rightarrow> float64" where
  "round_to_float64 s a b =
     (if a = 0 then Finite s 0 0
      else
        let e = max (floor_log2_ratio a b - 52) (- 1074);
            m = (if 0 \<le> e then round_half_even a (b * 2 ^ nat e)
                 else round_half_even (a * 2 ^ nat (- e)) b);
            (m', e') = (if m = 2 ^ 53 then (2 ^ 52, e + 1) else (m, e))
        in if 971 < e' then Infinity s else Finite s m' e')"

text \<open>The conversion \<^verbatim>\<open>float64(i)\<close> of an integer.\<close>

definition float64_of_int :: "int \<Rightarrow> float64" where
  "float64_of_int i = round_to_float64 (i < 0) (nat \<bar>i\<bar>) 1"

text \<open>The quotient \<^verbatim>\<open>x / y\<close> of two \<^verbatim>\<open>float64\<close> values.\<close>

fun float64_div :: "float64 \<Rightarrow> float64 \<Rightarrow> float64" where
  "float64_div NaN _ = NaN"
| "float64_div _ NaN = NaN"
| "float64_div (Infinity s) (Infinity t) = NaN"
| "float64_div (Infinity s) (Finite t m e) = Infinity (s \<noteq> t)"
| "float64_div (Finite s m e) (Infinity t) = Finite (s \<noteq> t) 0 0"
| "float64_div (Finite s m e) (Finite t n f) =
     (if n = 0 then (if m = 0 then NaN else Infinity (s \<noteq> t))
      else if f \<le> e then round_to_float64 (s \<noteq> t) (m * 2 ^ nat (e - f)) n
      else round_to_float64 (s \<noteq> t) m (n * 2 ^ nat (f - e)))"

text \<open>
  The conversion \<^verbatim>\<open>int(x)\<close> truncates toward zero. When the truncated value is not a
  64-bit integer (or \<open>x\<close> is not finite) the result is implementation-specific in Go:
  it is left to the parameter \<open>impl\<close>.
\<close>

definition int_of_float64 :: "(float64 \<Rightarrow> int) \<Rightarrow> float64 \<Rightarrow> int" where
  "int_of_float64 impl x =
     (case x of
        Finite s m e \<Rightarrow>
          (let t = (if 0 \<le> e then int m * 2 ^ nat e else int m div 2 ^ nat (- e));
               v = (if s then - t else t)
           in if - (2 ^ 63) \<le> v \<and> v < 2 ^ 63 then v else impl x)
      | _ \<Rightarrow> impl x)"

text \<open>
  The verb \<^verbatim>\<open>%.1f\<close>: the exact binary value, rounded to one decimal, ties to even.
  \<open>tenths x\<close> is that decimal without its point.
\<close>

definition tenths :: "nat \<Rightarrow> int \<Rightarrow> nat" where
  "tenths m e = (if 0 \<le> e then 10 * m * 2 ^ nat e else round_half_even (10 * m) (2 ^ nat (- e)))"

definition one_decimal :: "nat \<Rightarrow> string" where
  "one_decimal t = show_nat (t div 10) @ ''.'' @ show_nat (t mod 10)"

definition fmt_1f :: "float64 \<Rightarrow> string" where
  "fmt_1f x =
     (case x of
        Finite s m e \<Rightarrow> (if s then ''-'' else '''') @ one_decimal (tenths m e)
      | Infinity s \<Rightarrow> (if s then ''-Inf'' else ''+Inf'')
      | NaN \<Rightarrow> ''NaN'')"

text \<open>
  The verb \<^verbatim>\<open>%04.1f\<close>: zeros after the sign up to four characters; infinities and NaN
  are padded with spaces instead.
\<close>

definition fmt_04_1f :: "float64 \<Rightarrow> string" where
  "fmt_04_1f x =
     (case x of
        Finite s m e \<Rightarrow>
          (if s then ''-'' @ zero_pad 3 (one_decimal (tenths m e))
           else zero_pad 4 (one_decimal (tenths m e)))
      | Infinity s \<Rightarrow> (if s then ''-Inf'' else ''+Inf'')
      | NaN \<Rightarrow> '' NaN'')"

subsection \<open>prettyprint.go\<close>

definition Nanosecond :: int where "Nanosecond = 1"
definition Microsecond :: int where "Microsecond = 1000 * Nanosecond"
definition Millisecond :: int where "Millisecond = 1000 * Microsecond"
definition Second :: int where "Second = 1000 * Millisecond"
definition Minute :: int where "Minute = 60 * Second"
definition Hour :: int where "Hour = 60 * Minute"

lemmas unit_defs = Nanosecond_def Microsecond_def Millisecond_def Second_def Minute_def Hour_def

text \<open>The two bytes of the UTF-8 encoding of the micro sign.\<close>

definition micro_sign :: string where
  "micro_sign = [CHR 0xC2, CHR 0xB5]"

definition PrettyPrint :: "int \<Rightarrow> string" where
  "PrettyPrint d =
     (if d < Microsecond then show_int (d sdiv Nanosecond) @ ''ns''
      else if d < Millisecond then
        fmt_1f (float64_div (float64_of_int d) (float64_of_int Microsecond)) @ micro_sign @ ''s''
      else if d < Second then
        fmt_1f (float64_div (float64_of_int d) (float64_of_int Millisecond)) @ ''ms''
      else if d < 5 * Minute then
        fmt_1f (float64_div (float64_of_int d) (float64_of_int Second)) @ ''s''
      else if d < Hour then
        (let minutes = d sdiv Minute;
             seconds = float64_div (float64_of_int (d - minutes * Minute)) (float64_of_int Second)
         in show_int minutes @ ''m'' @ fmt_04_1f seconds @ ''s'')
      else if d < 24 * Hour then
        (let hours = d sdiv Hour;
             remainder = d - hours * Hour;
             minutes = remainder sdiv Minute;
             remainder = remainder - minutes * Minute;
             seconds = remainder sdiv Second
         in show_int hours @ ''h'' @ fmt_02d minutes @ ''m'' @ fmt_02d seconds @ ''s'')
      else
        (let Day = 24 * Hour;
             days = d sdiv Day;
             remainder = d - days * Day;
             hours = remainder sdiv Hour;
             remainder = remainder - hours * Hour;
             minutes = remainder sdiv Minute;
             remainder = remainder - minutes * Minute;
             seconds = remainder sdiv Second
         in show_int days @ ''d '' @ show_int hours @ ''h'' @ fmt_02d minutes @ ''m''
              @ fmt_02d seconds @ ''s''))"

subsection \<open>Rune counting and padding (unicode/utf8, fmt)\<close>

text \<open>
  \<^verbatim>\<open>utf8.RuneCountInString\<close> of the Go standard library: the table \<^verbatim>\<open>first\<close> gives, for a
  leading byte, the length of the encoding in its low three bits and the index of the range
  accepted for the second byte in its high four; a byte that does not start a valid
  encoding counts as one rune of width one.
\<close>

definition first :: "nat \<Rightarrow> nat" where
  "first c =
     (if c < 0x80 then 0xF0
      else if c < 0xC2 then 0xF1
      else if c < 0xE0 then 0x02
      else if c = 0xE0 then 0x13
      else if c < 0xED then 0x03
      else if c = 0xED then 0x23
      else if c < 0xF0 then 0x03
      else if c = 0xF0 then 0x34
      else if c < 0xF4 then 0x04
      else if c = 0xF4 then 0x44
      else 0xF1)"

definition acceptRanges :: "nat \<Rightarrow> nat \<times> nat" where
  "acceptRanges i =
     (if i = 0 then (0x80, 0xBF)
      else if i = 1 then (0xA0, 0xBF)
      else if i = 2 then (0x80, 0x9F)
      else if i = 3 then (0x90, 0xBF)
      else if i = 4 then (0x80, 0x8F)
      else (0, 0))"

definition byte :: "char \<Rightarrow> nat" where
  "byte c = of_char c"

text \<open>The number of bytes that the rune starting with byte \<open>c\<close>, followed by \<open>rest\<close>, takes.\<close>

definition rune_width :: "char \<Rightarrow> string \<Rightarrow> nat" where
  "rune_width c rest =
     (if byte c < 0x80 then 1
      else
        let x = first (byte c) in
        if x = 0xF1 then 1
        else
          let size = x mod 8 in
          if Suc (length rest) < size then 1
          else
            let (lo, hi) = acceptRanges (x div 16) in
            if byte (rest ! 0) < lo \<or> hi < byte (rest ! 0) then 1
            else if size = 2 then 2
            else if byte (rest ! 1) < 0x80 \<or> 0xBF < byte (rest ! 1) then 1
            else if size = 3 then 3
            else if byte (rest ! 2) < 0x80 \<or> 0xBF < byte (rest ! 2) then 1
            else size)"

fun RuneCountInString :: "string \<Rightarrow> nat" where
  "RuneCountInString [] = 0"
| "RuneCountInString (c # rest) = Suc (RuneCountInString (drop (rune_width c rest - 1) rest))"

definition tab :: string where "tab = [CHR 0x09]"
definition newline :: string where "newline = [CHR 0x0A]"

definition spaces :: "nat \<Rightarrow> string" where
  "spaces n = replicate n (CHR '' '')"

text \<open>
  A verb with width \<^verbatim>\<open>*\<close> (\<^verbatim>\<open>%*s\<close>, \<^verbatim>\<open>%*d\<close>) applied to the text \<open>s\<close> of its operand: spaces
  on the left up to \<open>w\<close> runes, on the right for a negative \<open>w\<close>; a width beyond one
  million in absolute value is reported in the output and not applied.
\<close>

definition pad_width :: "int \<Rightarrow> string \<Rightarrow> string" where
  "pad_width w s =
     (if 1000000 < w \<or> w < - 1000000 then ''%!(BADWIDTH)'' @ s
      else if w < 0 then s @ spaces (nat (- w) - RuneCountInString s)
      else spaces (nat w - RuneCountInString s) @ s)"

subsection \<open>The benchmark configuration\<close>

text \<open>
  A benchmarked closure \<^verbatim>\<open>func()\<close> is observed only through the clock. The clock and the
  timer are the environment of the run, so the closure is modelled by what the collection
  loop records of it: \<open>Func f d\<close> is the list of the elapsed times, in nanoseconds, of the
  calls completed before a timer of duration \<open>d\<close> fires.
\<close>

record NamedFunction =
  Name :: string
  Func :: "int \<Rightarrow> int list"

record Options =
  fns :: "NamedFunction list"
  prettyPrintFn :: "int \<Rightarrow> string"
  quantiles :: "int list"
  warmUps :: int
  innerRepeats :: int
  duration :: int
  tolerance :: float64
  columnSize :: int

definition DefaultQuantiles :: "int list" where
  "DefaultQuantiles = [5, 99]"

text \<open>
  The methods have a pointer receiver and return it: the instance is the state that is
  passed in and returned.
\<close>

definition New :: "NamedFunction list \<Rightarrow> Options" where
  "New fs =
     \<lparr>fns = fs,
      prettyPrintFn = PrettyPrint,
      quantiles = DefaultQuantiles,
      warmUps = 5,
      innerRepeats = 1,
      duration = 1 * Second,
      tolerance = round_to_float64 False 1 1000,
      columnSize = 10\<rparr>"

definition WithPrettyPrintFn :: "(int \<Rightarrow> string) \<Rightarrow> Options \<Rightarrow> Options" where
  "WithPrettyPrintFn fn opts = opts\<lparr>prettyPrintFn := fn\<rparr>"

definition WithQuantiles :: "int list \<Rightarrow> Options \<Rightarrow> Options" where
  "WithQuantiles qs opts = opts\<lparr>quantiles := qs\<rparr>"

definition WithWarmUps :: "int \<Rightarrow> Options \<Rightarrow> Options" where
  "WithWarmUps n opts = opts\<lparr>warmUps := n\<rparr>"

definition WithInnerRepeats :: "int \<Rightarrow> Options \<Rightarrow> Options" where
  "WithInnerRepeats n opts = opts\<lparr>innerRepeats := n\<rparr>"

definition WithDuration :: "int \<Rightarrow> Options \<Rightarrow> Options" where
  "WithDuration d opts = opts\<lparr>duration := d\<rparr>"

definition WithTolerance :: "float64 \<Rightarrow> Options \<Rightarrow> Options" where
  "WithTolerance t opts = opts\<lparr>tolerance := t\<rparr>"

definition WithColumnSize :: "int \<Rightarrow> Options \<Rightarrow> Options" where
  "WithColumnSize n opts = opts\<lparr>columnSize := n\<rparr>"

subsection \<open>The collection window\<close>

text \<open>
  The quantile estimator is the third-party package \<^verbatim>\<open>github.com/streadway/quantile\<close>; its
  code is not part of the repository. Its three operations are parameters, over any type
  \<open>'e\<close> of estimator states, together with the platform's \<^verbatim>\<open>float64\<close> to \<^verbatim>\<open>int\<close>
  conversion of values that are not 64-bit integers.
\<close>

datatype Estimate = Known float64 float64

record 'e external =
  quantile_New :: "Estimate list \<Rightarrow> 'e"
  quantile_Add :: "'e \<Rightarrow> float64 \<Rightarrow> 'e"
  quantile_Get :: "'e \<Rightarrow> float64 \<Rightarrow> float64"
  convert :: "float64 \<Rightarrow> int"

definition nanosecondsEstimate :: "'e external \<Rightarrow> 'e \<Rightarrow> float64 \<Rightarrow> int" where
  "nanosecondsEstimate ext est q = int_of_float64 (convert ext) (quantile_Get ext est q) * Nanosecond"

record results =
  mean :: int
  median :: int
  quantile_values :: "int list"
  count :: int

text \<open>A run-time panic of Go.\<close>

datatype panic = IntegerDivideByZero

text \<open>
  The loop \<^verbatim>\<open>collection\<close>, over the calls completed before the timer fires; the state is
  the estimator, \<^verbatim>\<open>totalTime\<close> and \<^verbatim>\<open>count\<close>.
\<close>

fun collection :: "'e external \<Rightarrow> int list \<Rightarrow> 'e \<times> int \<times> int \<Rightarrow> 'e \<times> int \<times> int" where
  "collection ext [] st = st"
| "collection ext (elapsed # later) (estimator, totalTime, n) =
     collection ext later
       (quantile_Add ext estimator (float64_div (float64_of_int elapsed) (float64_of_int Nanosecond)),
        wrap64 (totalTime + elapsed),
        wrap64 (n + 1))"

definition percent :: "int \<Rightarrow> float64" where
  "percent pct = float64_div (float64_of_int pct) (float64_of_int 100)"

definition benchmarkOneFunc :: "'e external \<Rightarrow> Options \<Rightarrow> (int \<Rightarrow> int list) \<Rightarrow> panic + results" where
  "benchmarkOneFunc ext opts fn =
     (let estimates = Known (round_to_float64 False 50 100) (tolerance opts)
                        # map (\<lambda>pct. Known (percent pct) (tolerance opts)) (quantiles opts);
          estimator = quantile_New ext estimates;
          (estimator, totalTime, n) = collection ext (fn (duration opts)) (estimator, 0, 0)
      in if n = 0 then Inl IntegerDivideByZero
         else Inr \<lparr>mean = wrap64 (totalTime sdiv n),
                   median = nanosecondsEstimate ext estimator (round_to_float64 False 50 100),
                   quantile_values = map (\<lambda>pct. nanosecondsEstimate ext estimator (percent pct)) (quantiles opts),
                   count = n\<rparr>)"

subsection \<open>Done\<close>

definition header_label :: string where
  "header_label = ''Benchmarks:''"

definition runeCount :: "Options \<Rightarrow> int list" where
  "runeCount opts = map (\<lambda>namedFn. int (RuneCountInString (Name namedFn))) (fns opts)"

definition maxLen :: "Options \<Rightarrow> int" where
  "maxLen opts = fold (\<lambda>rc m. max m rc) (runeCount opts) (int (length header_label))"

text \<open>
  The first column: \<open>text\<close>, of \<open>rc\<close> runes, followed by \<^verbatim>\<open>extraSpaces\<close> spaces. \<^verbatim>\<open>Done\<close> has
  these lines twice, for the header and for the name of a row.
\<close>

definition first_column :: "int \<Rightarrow> int \<Rightarrow> string \<Rightarrow> string" where
  "first_column width rc text =
     (let extraSpaces = width - rc
      in if 0 < extraSpaces then text @ spaces (nat extraSpaces) else text)"

definition countStr :: "Options \<Rightarrow> string" where
  "countStr opts =
     (if 1 < innerRepeats opts then ''Runs(x'' @ show_int (innerRepeats opts) @ '')'' else ''Count'')"

definition header_row :: "Options \<Rightarrow> string" where
  "header_row opts =
     first_column (maxLen opts) (int (length header_label)) header_label
       @ tab @ pad_width (columnSize opts) ''Mean''
       @ tab @ pad_width (columnSize opts) ''Median''
       @ concat (map (\<lambda>q. tab @ pad_width (columnSize opts) (show_int q @ ''%-tile'')) (quantiles opts))
       @ tab @ pad_width (columnSize opts) (countStr opts) @ newline"

text \<open>The division of the results by the inner repeats.\<close>

definition scale_results :: "int \<Rightarrow> results \<Rightarrow> results" where
  "scale_results repeats r =
     (if 1 < repeats
      then r\<lparr>mean := mean r sdiv repeats,
             median := median r sdiv repeats,
             quantile_values := map (\<lambda>q. q sdiv repeats) (quantile_values r)\<rparr>
      else r)"

definition benchmark_row :: "Options \<Rightarrow> int \<Rightarrow> string \<Rightarrow> results \<Rightarrow> string" where
  "benchmark_row opts rc name r =
     first_column (maxLen opts) rc name
       @ tab @ pad_width (columnSize opts) (prettyPrintFn opts (mean r))
       @ tab @ pad_width (columnSize opts) (prettyPrintFn opts (median r))
       @ concat (map (\<lambda>q. tab @ pad_width (columnSize opts) (prettyPrintFn opts q)) (quantile_values r))
       @ tab @ pad_width (columnSize opts) (show_int (count r)) @ newline"

text \<open>
  What a call of \<^verbatim>\<open>Done\<close> leaves behind: the text written to the standard output, the
  number of calls of benchmarked functions, and the panic that ended it, if any.
\<close>

record run =
  stdout :: string
  invocations :: nat
  failure :: "panic option"

text \<open>
  The loop over the functions. The warm-up \<^verbatim>\<open>for _ = range o.warmUps\<close> makes no call for a
  count below one; the collection loop makes one call for each recorded sample.
\<close>

fun benchmark_loop :: "'e external \<Rightarrow> Options \<Rightarrow> (NamedFunction \<times> int) list \<Rightarrow> run \<Rightarrow> run" where
  "benchmark_loop ext opts [] st = st"
| "benchmark_loop ext opts ((namedFn, rc) # later) st =
     (let st = st\<lparr>invocations := invocations st + nat (warmUps opts)\<rparr>;
          st = st\<lparr>invocations := invocations st + length (Func namedFn (duration opts))\<rparr>
      in case benchmarkOneFunc ext opts (Func namedFn) of
           Inl p \<Rightarrow> st\<lparr>failure := Some p\<rparr>
         | Inr r \<Rightarrow>
             benchmark_loop ext opts later
               (st\<lparr>stdout := stdout st
                      @ benchmark_row opts rc (Name namedFn) (scale_results (innerRepeats opts) r)\<rparr>))"

definition Done :: "'e external \<Rightarrow> Options \<Rightarrow> run" where
  "Done ext opts =
     benchmark_loop ext opts (zip (fns opts) (runeCount opts))
       \<lparr>stdout = header_row opts, invocations = 0, failure = None\<rparr>"

subsection \<open>Auxiliary definitions for the proofs\<close>

text \<open>
  The part of \<open>rune_width\<close> after the table lookups, for an encoding of \<open>sz\<close> bytes whose
  second byte must lie between \<open>lo\<close> and \<open>hi\<close>.
\<close>

definition continuation_width :: "nat \<Rightarrow> nat \<Rightarrow> nat \<Rightarrow> string \<Rightarrow> nat" where
  "continuation_width sz lo hi rest =
     (if Suc (length rest) < sz then 1
      else if byte (rest ! 0) < lo \<or> hi < byte (rest ! 0) then 1
      else if sz = 2 then 2
      else if byte (rest ! 1) < 0x80 \<or> 0xBF < byte (rest ! 1) then 1
      else if sz = 3 then 3
      else if byte (rest ! 2) < 0x80 \<or> 0xBF < byte (rest ! 2) then 1
      else sz)"

subsection \<open>A concrete estimator for closed instances\<close>

text \<open>
  The theorems below hold for every estimator. Where a closed instance needs one, this
  is it: its state is the sample added last, and every query returns that sample.
\<close>

definition last_sample_estimator :: "float64 external" where
  "last_sample_estimator =
     \<lparr>quantile_New = (\<lambda>estimates. Finite False 0 0),
      quantile_Add = (\<lambda>est v. v),
      quantile_Get = (\<lambda>est q. est),
      convert = (\<lambda>x. - (2 ^ 63))\<rparr>"

text \<open>
  Two named functions: the first name has four runes in five bytes, the second is longer
  than the header label.
\<close>

definition cafe :: NamedFunction where
  "cafe = \<lparr>Name = ''caf'' @ [CHR 0xC3, CHR 0xA9], Func = (\<lambda>d. [100, 200, 301])\<rparr>"

definition long_name :: NamedFunction where
  "long_name = \<lparr>Name = ''BenchmarkLongName'', Func = (\<lambda>d. [100])\<rparr>"

section \<open>Properties\<close>

subsection \<open>Evaluation of closed terms\<close>

lemmas float_eval = float64_of_int_def round_to_float64_def floor_log2_ratio_def round_half_even_def
  compute_floorlog Let_def tenths_def

lemmas text_eval = fmt_1f_def fmt_04_1f_def fmt_02d_def one_decimal_def zero_pad_def show_int_def
  show_nat.simps digit_char_def


subsection \<open>Arithmetic of the 64-bit integers\<close>

lemma wrap64_id: "- (2 ^ 63) \<le> x \<Longrightarrow> x < 2 ^ 63 \<Longrightarrow> wrap64 x = x"
  by (simp add: wrap64_def)

lemma wrap64_idem: "wrap64 (wrap64 x) = wrap64 x"
  by (simp add: wrap64_def)

lemma wrap64_add_left: "wrap64 (wrap64 a + b) = wrap64 (a + b)"
proof -
  have "(wrap64 a + b + 2 ^ 63) mod 2 ^ 64 = ((a + 2 ^ 63) mod 2 ^ 64 + b) mod 2 ^ 64"
    by (simp add: wrap64_def algebra_simps)
  also have "\<dots> = (a + 2 ^ 63 + b) mod 2 ^ 64"
    by (rule mod_add_left_eq)
  finally show ?thesis
    by (simp add: wrap64_def algebra_simps)
qed

lemma sdiv_in_range:
  fixes x n :: int
  assumes "- (2 ^ 63) \<le> x" "x < 2 ^ 63" "0 < n"
  shows "- (2 ^ 63) \<le> x sdiv n \<and> x sdiv n < 2 ^ 63"
proof (cases "0 \<le> x")
  case True
  then have "x sdiv n = x div n"
    using assms(3) by (simp add: signed_divide_int_def sgn_if)
  moreover have "0 \<le> x div n" "x div n \<le> x"
    using True assms(3) zdiv_mono2 [of _ 1 n] by (simp_all add: pos_imp_zdiv_nonneg_iff)
  ultimately show ?thesis
    using assms by linarith
next
  case False
  then have "x sdiv n = - ((- x) div n)"
    using assms(3) by (simp add: signed_divide_int_def sgn_if)
  moreover have "0 \<le> (- x) div n" "(- x) div n \<le> - x"
    using False assms(3) zdiv_mono2 [of _ 1 n] by (simp_all add: pos_imp_zdiv_nonneg_iff)
  ultimately show ?thesis
    using assms by linarith
qed

subsection \<open>The collection window\<close>

text \<open>
  The loop leaves in \<^verbatim>\<open>totalTime\<close> the wrapped sum of the samples and in \<^verbatim>\<open>count\<close> their
  wrapped number.
\<close>

lemma collection_totals:
  "wrap64 t = t \<Longrightarrow> wrap64 n = n \<Longrightarrow>
   \<exists>e'. collection ext xs (e, t, n) = (e', wrap64 (t + sum_list xs), wrap64 (n + int (length xs)))"
proof (induction xs arbitrary: e t n)
  case Nil
  then show ?case by simp
next
  case (Cons x xs)
  let ?e = "quantile_Add ext e (float64_div (float64_of_int x) (float64_of_int Nanosecond))"
  from Cons.IH [of "wrap64 (t + x)" "wrap64 (n + 1)" ?e]
  obtain e' where "collection ext xs (?e, wrap64 (t + x), wrap64 (n + 1))
      = (e', wrap64 (wrap64 (t + x) + sum_list xs), wrap64 (wrap64 (n + 1) + int (length xs)))"
    by (auto simp: wrap64_idem)
  moreover have "wrap64 (wrap64 (t + x) + sum_list xs) = wrap64 (t + sum_list (x # xs))"
    by (simp add: wrap64_add_left add.assoc)
  moreover have "wrap64 (wrap64 (n + 1) + int (length xs)) = wrap64 (n + int (length (x # xs)))"
    using wrap64_add_left [of "n + 1" "int (length xs)"] by (simp add: add.assoc)
  ultimately show ?case
    by simp
qed

text \<open>
  C2. The claim: a collection window without samples ends in an explicit degenerate-run
  error, and the mean is never computed with a sample count of zero. The source has no
  guard: for a function whose window records nothing (as with a duration of zero, where the
  timer has fired before the first iteration) \<^verbatim>\<open>totalTime / time.Duration(count)\<close> divides
  by zero, and the panic ends \<^verbatim>\<open>Done\<close>.
\<close>

theorem zero_samples_divide_by_zero:
  "benchmarkOneFunc ext (WithDuration 0 opts) (\<lambda>d. []) = Inl IntegerDivideByZero
   \<and> failure (Done ext (WithDuration 0 (opts\<lparr>fns := [\<lparr>Name = name, Func = (\<lambda>d. [])\<rparr>]\<rparr>)))
       = Some IntegerDivideByZero"
  by (simp add: benchmarkOneFunc_def Done_def runeCount_def WithDuration_def)

text \<open>
  C5. For every non-empty sequence of samples recorded in a window, the mean is the sum of
  the samples divided by their number (the division of \<^verbatim>\<open>time.Duration\<close>, an integer
  division). The samples of one window are disjoint intervals on a clock of 64-bit
  nanoseconds: their sum and their number are 64-bit values.
\<close>

theorem mean_is_total_over_count:
  assumes "fn (duration opts) = samples" and "samples \<noteq> []"
    and "- (2 ^ 63) \<le> sum_list samples" and "sum_list samples < 2 ^ 63"
    and "int (length samples) < 2 ^ 63"
  shows "\<exists>r. benchmarkOneFunc ext opts fn = Inr r
            \<and> mean r = sum_list samples sdiv int (length samples)
            \<and> count r = int (length samples)"
proof -
  let ?n = "int (length samples)"
  have pos: "0 < ?n"
    using assms(2) by simp
  obtain e' where run: "collection ext samples (quantile_New ext
        (Known (round_to_float64 False 50 100) (tolerance opts)
          # map (\<lambda>pct. Known (percent pct) (tolerance opts)) (quantiles opts)), 0, 0)
      = (e', wrap64 (0 + sum_list samples), wrap64 (0 + ?n))"
    using collection_totals [of 0 0 ext samples] by (auto simp: wrap64_def)
  have tot: "wrap64 (0 + sum_list samples) = sum_list samples"
    using assms(3,4) by (simp add: wrap64_id)
  have cnt: "wrap64 (0 + ?n) = ?n"
    using assms(5) pos by (simp add: wrap64_id)
  have "wrap64 (sum_list samples sdiv ?n) = sum_list samples sdiv ?n"
    using sdiv_in_range [OF assms(3,4) pos] by (simp add: wrap64_id)
  then show ?thesis
    using run tot cnt pos by (simp add: benchmarkOneFunc_def assms(1))
qed

theorem mean_is_total_over_count_witness:
  "\<exists>r. benchmarkOneFunc last_sample_estimator (New []) (\<lambda>d. [100, 200, 301]) = Inr r
        \<and> mean r = 200 \<and> count r = 3"
  using mean_is_total_over_count
    [of "\<lambda>d. [100, 200, 301]" "New []" "[100, 200, 301]" last_sample_estimator]
  by (simp add: signed_divide_int_def)

subsection \<open>The setters\<close>

text \<open>
  C8. Each setter assigns its own field and nothing else: the field holds the argument,
  putting the old value back gives the receiver as it was, and the function list is the
  same. The instance returned is the receiver, which the state passing expresses.
\<close>

theorem setters_change_one_field:
  "prettyPrintFn (WithPrettyPrintFn fn opts) = fn
     \<and> (WithPrettyPrintFn fn opts)\<lparr>prettyPrintFn := prettyPrintFn opts\<rparr> = opts
     \<and> fns (WithPrettyPrintFn fn opts) = fns opts
   \<and> quantiles (WithQuantiles qs opts) = qs
     \<and> (WithQuantiles qs opts)\<lparr>quantiles := quantiles opts\<rparr> = opts
     \<and> fns (WithQuantiles qs opts) = fns opts
   \<and> warmUps (WithWarmUps n opts) = n
     \<and> (WithWarmUps n opts)\<lparr>warmUps := warmUps opts\<rparr> = opts
     \<and> fns (WithWarmUps n opts) = fns opts
   \<and> innerRepeats (WithInnerRepeats k opts) = k
     \<and> (WithInnerRepeats k opts)\<lparr>innerRepeats := innerRepeats opts\<rparr> = opts
     \<and> fns (WithInnerRepeats k opts) = fns opts
   \<and> duration (WithDuration d opts) = d
     \<and> (WithDuration d opts)\<lparr>duration := duration opts\<rparr> = opts
     \<and> fns (WithDuration d opts) = fns opts
   \<and> tolerance (WithTolerance t opts) = t
     \<and> (WithTolerance t opts)\<lparr>tolerance := tolerance opts\<rparr> = opts
     \<and> fns (WithTolerance t opts) = fns opts
   \<and> columnSize (WithColumnSize c opts) = c
     \<and> (WithColumnSize c opts)\<lparr>columnSize := columnSize opts\<rparr> = opts
     \<and> fns (WithColumnSize c opts) = fns opts"
  by (simp add: WithPrettyPrintFn_def WithQuantiles_def WithWarmUps_def WithInnerRepeats_def
      WithDuration_def WithTolerance_def WithColumnSize_def)

subsection \<open>Rounding to binary64\<close>
















subsection \<open>Pretty-printing\<close>

lemma show_nat_500: "show_nat 500 = ''500''"
  by (simp add: text_eval)

text \<open>
  C9. A strictly negative duration is below one microsecond, so \<^verbatim>\<open>PrettyPrint\<close> takes its
  first branch and returns the integer number of nanoseconds, with its sign, followed by
  \<^verbatim>\<open>ns\<close>.
\<close>

theorem PrettyPrint_negative:
  "d < 0 \<Longrightarrow> PrettyPrint d = show_int d @ ''ns'' \<and> show_int d = ''-'' @ show_nat (nat (- d))"
  by (simp add: PrettyPrint_def unit_defs show_int_def signed_divide_int_def)

theorem PrettyPrint_negative_witness:
  "(- 500 :: int) < 0 \<and> PrettyPrint (- 500) = ''-500ns''"
  using PrettyPrint_negative [of "- 500"] by (simp add: show_nat_500)

text \<open>The branches of \<^verbatim>\<open>PrettyPrint\<close> for a non-negative duration.\<close>

lemma sdiv_nonneg: "0 \<le> a \<Longrightarrow> 0 < b \<Longrightarrow> a sdiv b = a div (b::int)"
  by (simp add: signed_divide_int_def sgn_if)

lemma show_int_nonneg: "0 \<le> i \<Longrightarrow> show_int i = show_nat (nat i)"
  by (simp add: show_int_def)



lemma PrettyPrint_ns:
  "0 \<le> d \<Longrightarrow> d < 1000 \<Longrightarrow> PrettyPrint d = show_nat (nat d) @ ''ns''"
  by (simp add: PrettyPrint_def unit_defs sdiv_nonneg show_int_nonneg)














subsection \<open>Rune counts and the first column\<close>

lemma rune_width_continuation:
  "rune_width c rest =
     (if byte c < 0x80 \<or> first (byte c) = 0xF1 then 1
      else continuation_width (first (byte c) mod 8)
             (fst (acceptRanges (first (byte c) div 16)))
             (snd (acceptRanges (first (byte c) div 16))) rest)"
  by (simp add: rune_width_def continuation_width_def Let_def case_prod_beta)

lemma first_continuation:
  assumes "\<not> byte c < 0x80" and "first (byte c) \<noteq> 0xF1"
  shows "first (byte c) mod 8 \<in> {2, 3, 4} \<and> 32 < fst (acceptRanges (first (byte c) div 16))"
proof -
  have "first (byte c) \<in> {0x02, 0x13, 0x03, 0x23, 0x34, 0x04, 0x44}"
    using assms by (auto simp: first_def split: if_splits)
  then show ?thesis
    by (auto simp: acceptRanges_def)
qed


lemma first_cases:
  "first b \<in> {0xF0, 0xF1, 0x02, 0x13, 0x03, 0x23, 0x34, 0x04, 0x44}"
  by (simp add: first_def)

lemma byte_space: "byte (CHR '' '') = 32"
  by (simp add: byte_def)

lemma byte_before_spaces:
  "i < length rest \<Longrightarrow> byte ((rest @ spaces n) ! i) = byte (rest ! i)"
  by (simp add: nth_append)

lemma byte_in_spaces:
  "length rest \<le> i \<Longrightarrow> i < length rest + n \<Longrightarrow> byte ((rest @ spaces n) ! i) = 32"
  by (simp add: nth_append spaces_def byte_space)

lemma width2_append_spaces:
  assumes "32 < lo"
  shows "continuation_width 2 lo hi (rest @ spaces n) = continuation_width 2 lo hi rest"
proof (cases "n = 0")
  case True
  then show ?thesis by (simp add: spaces_def)
next
  case False
  show ?thesis
  proof (cases "length rest = 0")
    case True
    with False have "byte ((rest @ spaces n) ! 0) = 32"
      by (intro byte_in_spaces) simp_all
    with True assms show ?thesis by (simp add: continuation_width_def)
  next
    case False
    then have "byte ((rest @ spaces n) ! 0) = byte (rest ! 0)"
      by (intro byte_before_spaces) simp
    with False show ?thesis by (simp add: continuation_width_def)
  qed
qed

lemma width3_append_spaces:
  assumes "32 < lo"
  shows "continuation_width 3 lo hi (rest @ spaces n) = continuation_width 3 lo hi rest"
proof (cases "n = 0")
  case True
  then show ?thesis by (simp add: spaces_def)
next
  case False
  consider "length rest = 0" | "length rest = 1" | "2 \<le> length rest"
    by linarith
  then show ?thesis
  proof cases
    case 1
    with False have "byte ((rest @ spaces n) ! 0) = 32"
      by (intro byte_in_spaces) simp_all
    with 1 assms show ?thesis by (simp add: continuation_width_def)
  next
    case 2
    with False have "byte ((rest @ spaces n) ! 1) = 32"
      by (intro byte_in_spaces) simp_all
    with 2 show ?thesis by (simp add: continuation_width_def)
  next
    case 3
    have "byte ((rest @ spaces n) ! 0) = byte (rest ! 0)"
      by (rule byte_before_spaces) (use 3 in linarith)
    moreover have "byte ((rest @ spaces n) ! 1) = byte (rest ! 1)"
      by (rule byte_before_spaces) (use 3 in linarith)
    ultimately show ?thesis using 3 by (simp add: continuation_width_def)
  qed
qed

lemma width4_append_spaces:
  assumes "32 < lo"
  shows "continuation_width 4 lo hi (rest @ spaces n) = continuation_width 4 lo hi rest"
proof (cases "n = 0")
  case True
  then show ?thesis by (simp add: spaces_def)
next
  case False
  consider "length rest = 0" | "length rest = 1" | "length rest = 2" | "3 \<le> length rest"
    by linarith
  then show ?thesis
  proof cases
    case 1
    with False have "byte ((rest @ spaces n) ! 0) = 32"
      by (intro byte_in_spaces) simp_all
    with 1 assms show ?thesis by (simp add: continuation_width_def)
  next
    case 2
    with False have "byte ((rest @ spaces n) ! 1) = 32"
      by (intro byte_in_spaces) simp_all
    with 2 show ?thesis by (simp add: continuation_width_def)
  next
    case 3
    with False have "byte ((rest @ spaces n) ! 2) = 32"
      by (intro byte_in_spaces) simp_all
    with 3 show ?thesis by (simp add: continuation_width_def)
  next
    case 4
    have "byte ((rest @ spaces n) ! 0) = byte (rest ! 0)"
      by (rule byte_before_spaces) (use 4 in linarith)
    moreover have "byte ((rest @ spaces n) ! 1) = byte (rest ! 1)"
      by (rule byte_before_spaces) (use 4 in linarith)
    moreover have "byte ((rest @ spaces n) ! 2) = byte (rest ! 2)"
      by (rule byte_before_spaces) (use 4 in linarith)
    ultimately show ?thesis using 4 by (simp add: continuation_width_def)
  qed
qed

lemma continuation_width_le:
  "sz \<in> {2, 3, 4} \<Longrightarrow> continuation_width sz lo hi rest \<le> Suc (length rest)"
  by (auto simp: continuation_width_def Suc_le_eq)

lemma rune_width_le: "rune_width c rest \<le> Suc (length rest)"
  using first_continuation [of c] continuation_width_le
  by (simp add: rune_width_continuation)

lemma rune_width_append_spaces: "rune_width c (rest @ spaces n) = rune_width c rest"
proof (cases "byte c < 0x80 \<or> first (byte c) = 0xF1")
  case True
  then show ?thesis by (simp add: rune_width_continuation)
next
  case False
  with first_continuation [of c]
  have sz: "first (byte c) mod 8 \<in> {2, 3, 4}"
    and lo: "32 < fst (acceptRanges (first (byte c) div 16))"
    by simp_all
  from sz lo show ?thesis
    using False
    by (auto simp: rune_width_continuation width2_append_spaces width3_append_spaces
        width4_append_spaces)
qed

lemma RuneCountInString_spaces: "RuneCountInString (spaces n) = n"
  by (induction n) (simp_all add: spaces_def rune_width_def byte_space)

lemma RuneCountInString_append_spaces:
  "RuneCountInString (s @ spaces n) = RuneCountInString s + n"
proof (induction s rule: RuneCountInString.induct)
  case 1
  then show ?case by (simp add: RuneCountInString_spaces)
next
  case (2 c rest)
  have "drop (rune_width c rest - 1) (rest @ spaces n) = drop (rune_width c rest - 1) rest @ spaces n"
    using rune_width_le [of c rest] by simp
  then show ?case
    using 2 by (simp add: rune_width_append_spaces)
qed

lemma fold_max_Max:
  fixes a :: int
  shows "fold (\<lambda>rc m. max m rc) xs a = Max (insert a (set xs))"
proof (induction xs arbitrary: a)
  case Nil
  then show ?case by simp
next
  case (Cons x xs)
  have "Max (insert (max a x) (set xs)) = Max (insert a (insert x (set xs)))"
    by (cases "set xs = {}") (simp_all add: max.assoc)
  then show ?case
    using Cons.IH [of "max a x"] by (simp add: insert_commute)
qed

lemma RuneCountInString_header_label: "RuneCountInString header_label = 11"
  by code_simp

lemma maxLen_Max:
  "maxLen opts = Max (insert 11 ((\<lambda>namedFn. int (RuneCountInString (Name namedFn))) ` set (fns opts)))"
  by (simp add: maxLen_def runeCount_def fold_max_Max header_label_def)

lemma maxLen_ge:
  "11 \<le> maxLen opts"
  "namedFn \<in> set (fns opts) \<Longrightarrow> int (RuneCountInString (Name namedFn)) \<le> maxLen opts"
  by (simp_all add: maxLen_Max)

lemma first_column_spaces:
  "rc \<le> width \<Longrightarrow> first_column width rc text = text @ spaces (nat (width - rc))"
  by (simp add: first_column_def spaces_def)

lemma cafe_runes: "RuneCountInString (Name cafe) = 4" "length (Name cafe) = 5"
  by code_simp+

lemma long_name_runes: "RuneCountInString (Name long_name) = 17"
  by code_simp

lemma maxLen_example: "maxLen (New [cafe, long_name]) = 17"
  by (simp add: maxLen_def runeCount_def New_def header_label_def cafe_runes long_name_runes)

subsection \<open>The report\<close>

lemma digit_char_not_newline: "d < 10 \<Longrightarrow> digit_char d \<noteq> CHR 0x0A"
proof -
  assume "d < 10"
  then have "digit_char d \<in> set ''0123456789''"
    unfolding digit_char_def by (intro nth_mem) simp
  then show ?thesis
    by auto
qed

lemma show_nat_no_newline: "CHR 0x0A \<notin> set (show_nat n)"
proof (induction n rule: show_nat.induct)
  case (1 n)
  show ?case
  proof (cases "n < 10")
    case True
    then show ?thesis
      using digit_char_not_newline [of n] by (subst show_nat.simps) auto
  next
    case False
    then show ?thesis
      using 1 digit_char_not_newline [of "n mod 10"] by (subst show_nat.simps) auto
  qed
qed

lemma show_int_no_newline: "CHR 0x0A \<notin> set (show_int i)"
  by (simp add: show_int_def show_nat_no_newline)

lemma pad_width_no_newline:
  "CHR 0x0A \<notin> set s \<Longrightarrow> CHR 0x0A \<notin> set (pad_width w s)"
  by (simp add: pad_width_def spaces_def)

lemma countStr_no_newline: "CHR 0x0A \<notin> set (countStr opts)"
  by (simp add: countStr_def show_int_no_newline)

lemma header_row_without_functions:
  assumes "fns opts = []"
  shows "header_row opts =
           header_label @ tab @ pad_width (columnSize opts) ''Mean''
             @ tab @ pad_width (columnSize opts) ''Median''
             @ concat (map (\<lambda>q. tab @ pad_width (columnSize opts) (show_int q @ ''%-tile'')) (quantiles opts))
             @ tab @ pad_width (columnSize opts) (countStr opts) @ newline"
  using assms by (simp add: header_row_def maxLen_def runeCount_def first_column_def)

lemma header_row_one_line: "count_list (header_row opts) (CHR 0x0A) = 1"
proof -
  let ?nl = "CHR 0x0A"
  have 1: "?nl \<notin> set (first_column (maxLen opts) (int (length header_label)) header_label)"
    by (simp add: first_column_def header_label_def spaces_def)
  have 2: "?nl \<notin> set (pad_width (columnSize opts) ''Mean'')"
    "?nl \<notin> set (pad_width (columnSize opts) ''Median'')"
    "?nl \<notin> set (pad_width (columnSize opts) (countStr opts))"
    by (simp_all add: pad_width_no_newline countStr_no_newline)
  have "?nl \<notin> set (tab @ pad_width (columnSize opts) (show_int q @ ''%-tile''))" for q
    by (simp add: tab_def pad_width_no_newline show_int_no_newline)
  then have 3: "?nl \<notin> set (concat (map (\<lambda>q. tab @ pad_width (columnSize opts) (show_int q @ ''%-tile''))
      (quantiles opts)))"
    by auto
  show ?thesis
    using 1 2 3 by (simp add: header_row_def tab_def newline_def)
qed

text \<open>
  C10. With an empty list of functions \<^verbatim>\<open>Done\<close> returns without a panic, calls no function,
  and writes the header row only: the header label (not padded, since no name is longer),
  \<^verbatim>\<open>Mean\<close>, \<^verbatim>\<open>Median\<close>, one column for each configured quantile and the count column. The
  output holds one newline, which ends it.
\<close>

theorem Done_without_functions:
  assumes "fns opts = []"
  shows "Done ext opts = \<lparr>stdout = header_row opts, invocations = 0, failure = None\<rparr>
     \<and> header_row opts =
           header_label @ tab @ pad_width (columnSize opts) ''Mean''
             @ tab @ pad_width (columnSize opts) ''Median''
             @ concat (map (\<lambda>q. tab @ pad_width (columnSize opts) (show_int q @ ''%-tile'')) (quantiles opts))
             @ tab @ pad_width (columnSize opts) (countStr opts) @ newline
     \<and> count_list (header_row opts) (CHR 0x0A) = 1"
  using assms header_row_without_functions [OF assms] header_row_one_line [of opts]
  by (simp add: Done_def runeCount_def)

lemma spaces_literals:
  "spaces 2 = ''  ''" "spaces 3 = ''   ''" "spaces 4 = ''    ''" "spaces 5 = ''     ''"
  "spaces 6 = ''      ''"
  by (simp_all add: spaces_def eval_nat_numeral)

lemma default_columns:
  "pad_width 10 ''Mean'' = ''      Mean''"
  "pad_width 10 ''Median'' = ''    Median''"
  "pad_width 10 (show_int 5 @ ''%-tile'') = ''   5%-tile''"
  "pad_width 10 (show_int 99 @ ''%-tile'') = ''  99%-tile''"
  "pad_width 10 ''Count'' = ''     Count''"
  by (simp_all add: pad_width_def spaces_literals rune_width_def byte_def text_eval)

theorem Done_without_functions_witness:
  "fns (New []) = []
   \<and> Done last_sample_estimator (New []) =
        \<lparr>stdout = ''Benchmarks:'' @ tab @ ''      Mean'' @ tab @ ''    Median'' @ tab @ ''   5%-tile''
                    @ tab @ ''  99%-tile'' @ tab @ ''     Count'' @ newline,
         invocations = 0, failure = None\<rparr>"
proof -
  have "fns (New []) = []"
    by (simp add: New_def)
  from Done_without_functions [OF this, of last_sample_estimator] show ?thesis
    by (simp add: New_def DefaultQuantiles_def countStr_def header_label_def default_columns)
qed


subsection \<open>A run of one function\<close>

lemma Done_single:
  assumes "fns opts = [f]"
  shows "Done ext opts =
     (case benchmarkOneFunc ext opts (Func f) of
        Inl p \<Rightarrow> \<lparr>stdout = header_row opts,
                   invocations = nat (warmUps opts) + length (Func f (duration opts)),
                   failure = Some p\<rparr>
      | Inr r \<Rightarrow> \<lparr>stdout = header_row opts
                     @ benchmark_row opts (int (RuneCountInString (Name f))) (Name f)
                         (scale_results (innerRepeats opts) r),
                   invocations = nat (warmUps opts) + length (Func f (duration opts)),
                   failure = None\<rparr>)"
  using assms by (simp add: Done_def runeCount_def Let_def split: sum.split)

lemma last_sample_estimator_simps:
  "quantile_Add last_sample_estimator est v = v"
  "quantile_Get last_sample_estimator est q = est"
  by (simp_all add: last_sample_estimator_def)

lemma sample_301:
  "int_of_float64 impl (float64_div (float64_of_int 301) (float64_of_int Nanosecond)) = 301"
  by (simp add: float_eval int_of_float64_def Nanosecond_def)

lemma times_Nanosecond: "x * Nanosecond = x"
  by (simp add: Nanosecond_def)

lemma window_cafe:
  assumes "quantiles opts = [5, 99]"
  shows "benchmarkOneFunc last_sample_estimator opts (Func cafe)
     = Inr \<lparr>mean = 200, median = 301, quantile_values = [301, 301], count = 3\<rparr>"
proof -
  have "collection last_sample_estimator [100, 200, 301] (e, 0, 0)
      = (float64_div (float64_of_int 301) (float64_of_int Nanosecond), 601, 3)" for e
    by (simp add: wrap64_def last_sample_estimator_simps)
  moreover have "nanosecondsEstimate last_sample_estimator
      (float64_div (float64_of_int 301) (float64_of_int Nanosecond)) q = 301" for q
    by (simp add: nanosecondsEstimate_def last_sample_estimator_simps sample_301 times_Nanosecond)
  moreover have "wrap64 (601 sdiv 3) = 200"
    by (simp add: wrap64_def signed_divide_int_def)
  moreover have "Func cafe (duration opts) = [100, 200, 301]"
    by (simp add: cafe_def)
  ultimately show ?thesis
    using assms by (simp add: benchmarkOneFunc_def)
qed

subsection \<open>What a run writes\<close>

text \<open>
  The loop of \<^verbatim>\<open>Done\<close> in closed form. The functions are run in order up to the first one
  whose window holds no sample; each function before it adds one row, made of its own name
  and rune count and of its results after the division by the inner repeats, and each
  function that is run is called once for every warm-up and once for every sample.
\<close>

lemma panic_only: "(p :: panic) = IntegerDivideByZero"
  by (cases p)

lemma benchmark_loop_report:
  "benchmark_loop ext opts (map (\<lambda>f. (f, int (RuneCountInString (Name f)))) fs) st =
     st\<lparr>stdout := stdout st
           @ concat (map (\<lambda>f. case benchmarkOneFunc ext opts (Func f) of
                                 Inl p \<Rightarrow> []
                               | Inr r \<Rightarrow> benchmark_row opts (int (RuneCountInString (Name f))) (Name f)
                                            (scale_results (innerRepeats opts) r))
               (takeWhile (\<lambda>f. \<not> isl (benchmarkOneFunc ext opts (Func f))) fs)),
        invocations := invocations st
           + sum_list (map (\<lambda>f. nat (warmUps opts) + length (Func f (duration opts)))
               (takeWhile (\<lambda>f. \<not> isl (benchmarkOneFunc ext opts (Func f))) fs
                 @ take 1 (dropWhile (\<lambda>f. \<not> isl (benchmarkOneFunc ext opts (Func f))) fs))),
        failure := (if \<forall>f \<in> set fs. \<not> isl (benchmarkOneFunc ext opts (Func f)) then failure st
                    else Some IntegerDivideByZero)\<rparr>"
proof (induction fs arbitrary: st)
  case Nil
  then show ?case by simp
next
  case (Cons f fs)
  show ?case
  proof (cases "benchmarkOneFunc ext opts (Func f)")
    case (Inl p)
    then show ?thesis
      by (simp add: Let_def panic_only [of p])
  next
    case (Inr r)
    then show ?thesis
      by (simp add: Cons.IH Let_def add.assoc)
  qed
qed

lemma Done_report:
  "Done ext opts =
     \<lparr>stdout = header_row opts
           @ concat (map (\<lambda>f. case benchmarkOneFunc ext opts (Func f) of
                                 Inl p \<Rightarrow> []
                               | Inr r \<Rightarrow> benchmark_row opts (int (RuneCountInString (Name f))) (Name f)
                                            (scale_results (innerRepeats opts) r))
               (takeWhile (\<lambda>f. \<not> isl (benchmarkOneFunc ext opts (Func f))) (fns opts))),
      invocations =
           sum_list (map (\<lambda>f. nat (warmUps opts) + length (Func f (duration opts)))
               (takeWhile (\<lambda>f. \<not> isl (benchmarkOneFunc ext opts (Func f))) (fns opts)
                 @ take 1 (dropWhile (\<lambda>f. \<not> isl (benchmarkOneFunc ext opts (Func f))) (fns opts)))),
      failure = (if \<forall>f \<in> set (fns opts). \<not> isl (benchmarkOneFunc ext opts (Func f)) then None
                 else Some IntegerDivideByZero)\<rparr>"
proof -
  have "zip (fns opts) (runeCount opts)
      = map (\<lambda>f. (f, int (RuneCountInString (Name f)))) (fns opts)"
    by (simp add: runeCount_def zip_map2 zip_same_conv_map)
  then show ?thesis
    by (simp add: Done_def benchmark_loop_report)
qed

lemma benchmarkOneFunc_frame:
  "benchmarkOneFunc ext (WithInnerRepeats j opts) fn = benchmarkOneFunc ext opts fn"
  "benchmarkOneFunc ext (WithWarmUps n opts) fn = benchmarkOneFunc ext opts fn"
  by (simp_all add: benchmarkOneFunc_def WithInnerRepeats_def WithWarmUps_def split: prod.split)

lemma setters_frame:
  "fns (WithInnerRepeats j opts) = fns opts" "fns (WithWarmUps n opts) = fns opts"
  "warmUps (WithInnerRepeats j opts) = warmUps opts" "warmUps (WithWarmUps n opts) = n"
  "innerRepeats (WithInnerRepeats j opts) = j" "innerRepeats (WithWarmUps n opts) = innerRepeats opts"
  "duration (WithInnerRepeats j opts) = duration opts" "duration (WithWarmUps n opts) = duration opts"
  "maxLen (WithInnerRepeats j opts) = maxLen opts" "maxLen (WithWarmUps n opts) = maxLen opts"
  by (simp_all add: WithInnerRepeats_def WithWarmUps_def maxLen_def runeCount_def)

lemma benchmark_row_divided:
  assumes "1 < k"
  shows "benchmark_row (WithInnerRepeats k opts) rc name (scale_results k r)
       = first_column (maxLen opts) rc name
           @ tab @ pad_width (columnSize opts) (prettyPrintFn opts (mean r sdiv k))
           @ tab @ pad_width (columnSize opts) (prettyPrintFn opts (median r sdiv k))
           @ concat (map (\<lambda>q. tab @ pad_width (columnSize opts) (prettyPrintFn opts (q sdiv k)))
               (quantile_values r))
           @ tab @ pad_width (columnSize opts) (show_int (count r)) @ newline"
  using assms
  by (simp add: benchmark_row_def scale_results_def setters_frame comp_def)
    (simp add: WithInnerRepeats_def)

lemma benchmark_row_undivided:
  assumes "innerRepeats opts \<le> 1"
  shows "benchmark_row opts rc name (scale_results (innerRepeats opts) r)
       = first_column (maxLen opts) rc name
           @ tab @ pad_width (columnSize opts) (prettyPrintFn opts (mean r))
           @ tab @ pad_width (columnSize opts) (prettyPrintFn opts (median r))
           @ concat (map (\<lambda>q. tab @ pad_width (columnSize opts) (prettyPrintFn opts q))
               (quantile_values r))
           @ tab @ pad_width (columnSize opts) (show_int (count r)) @ newline"
  using assms by (simp add: benchmark_row_def scale_results_def)

lemma header_row_Count:
  assumes "innerRepeats opts \<le> 1"
  shows "header_row opts =
      first_column (maxLen opts) (int (length header_label)) header_label
        @ tab @ pad_width (columnSize opts) ''Mean''
        @ tab @ pad_width (columnSize opts) ''Median''
        @ concat (map (\<lambda>q. tab @ pad_width (columnSize opts) (show_int q @ ''%-tile'')) (quantiles opts))
        @ tab @ pad_width (columnSize opts) ''Count'' @ newline"
  using assms by (simp add: header_row_def countStr_def)

lemma concat_map_cong:
  "(\<And>x. x \<in> set xs \<Longrightarrow> f x = g x) \<Longrightarrow> concat (map f xs) = concat (map g xs)"
  by (induction xs) simp_all

subsection \<open>A run of two functions\<close>

lemma sample_100:
  "int_of_float64 impl (float64_div (float64_of_int 100) (float64_of_int Nanosecond)) = 100"
  by (simp add: float_eval int_of_float64_def Nanosecond_def)

lemma window_long_name:
  assumes "quantiles opts = [5, 99]"
  shows "benchmarkOneFunc last_sample_estimator opts (Func long_name)
     = Inr \<lparr>mean = 100, median = 100, quantile_values = [100, 100], count = 1\<rparr>"
proof -
  have "collection last_sample_estimator [100] (e, 0, 0)
      = (float64_div (float64_of_int 100) (float64_of_int Nanosecond), 100, 1)" for e
    by (simp add: wrap64_def last_sample_estimator_simps)
  moreover have "nanosecondsEstimate last_sample_estimator
      (float64_div (float64_of_int 100) (float64_of_int Nanosecond)) q = 100" for q
    by (simp add: nanosecondsEstimate_def last_sample_estimator_simps sample_100 times_Nanosecond)
  moreover have "wrap64 (100 sdiv 1) = 100"
    by (simp add: wrap64_def signed_divide_int_def)
  moreover have "Func long_name (duration opts) = [100]"
    by (simp add: long_name_def)
  ultimately show ?thesis
    using assms by (simp add: benchmarkOneFunc_def)
qed

lemma example_options:
  "fns (New [cafe, long_name]) = [cafe, long_name]"
  "quantiles (New [cafe, long_name]) = [5, 99]"
  "columnSize (New [cafe, long_name]) = 10"
  "prettyPrintFn (New [cafe, long_name]) = PrettyPrint"
  "innerRepeats (New [cafe, long_name]) = 1"
  by (simp_all add: New_def DefaultQuantiles_def)

lemma example_windows:
  "benchmarkOneFunc last_sample_estimator (New [cafe, long_name]) (Func cafe)
     = Inr \<lparr>mean = 200, median = 301, quantile_values = [301, 301], count = 3\<rparr>"
  "benchmarkOneFunc last_sample_estimator (New [cafe, long_name]) (Func long_name)
     = Inr \<lparr>mean = 100, median = 100, quantile_values = [100, 100], count = 1\<rparr>"
  by (simp_all add: window_cafe window_long_name example_options)

lemma example_samples:
  "Func cafe d = [100, 200, 301]" "Func long_name d = [100]"
  by (simp_all add: cafe_def long_name_def)

lemma example_durations:
  "PrettyPrint 200 = ''200ns''" "PrettyPrint 301 = ''301ns''" "PrettyPrint 100 = ''100ns''"
  "PrettyPrint 20 = ''20ns''" "PrettyPrint 30 = ''30ns''" "PrettyPrint 10 = ''10ns''"
  by (simp_all add: PrettyPrint_ns text_eval)

lemma spaces_one_nine: "spaces (Suc 0) = '' ''" "spaces 9 = ''         ''"
  by (simp_all add: spaces_def eval_nat_numeral)

lemma example_cells:
  "pad_width 10 ''200ns'' = ''     200ns''" "pad_width 10 ''301ns'' = ''     301ns''"
  "pad_width 10 ''100ns'' = ''     100ns''" "pad_width 10 ''20ns'' = ''      20ns''"
  "pad_width 10 ''30ns'' = ''      30ns''" "pad_width 10 ''10ns'' = ''      10ns''"
  "pad_width 10 (show_int 3) = ''         3''" "pad_width 10 (show_int 1) = ''         1''"
  "pad_width 10 ''Runs(x10)'' = '' Runs(x10)''"
  by (simp_all add: pad_width_def spaces_literals spaces_one_nine rune_width_def byte_def text_eval)

lemma example_labels:
  "countStr (WithInnerRepeats 10 opts) = ''Runs(x10)''"
  "countStr (WithInnerRepeats 1 opts) = ''Count''"
  "countStr (WithInnerRepeats 0 opts) = ''Count''"
  "countStr (New fs) = ''Count''"
  by (simp_all add: countStr_def WithInnerRepeats_def New_def text_eval)

lemma example_header:
  assumes "maxLen opts = 17" and "columnSize opts = 10" and "quantiles opts = [5, 99]"
  shows "header_row opts =
      ''Benchmarks:'' @ spaces 6 @ tab @ ''      Mean'' @ tab @ ''    Median'' @ tab @ ''   5%-tile''
        @ tab @ ''  99%-tile'' @ tab @ pad_width 10 (countStr opts) @ newline"
  using assms by (simp add: header_row_def first_column_def header_label_def default_columns)

lemma example_widths:
  "maxLen (WithInnerRepeats j (New [cafe, long_name])) = 17"
  "columnSize (WithInnerRepeats j (New fs)) = 10"
  "quantiles (WithInnerRepeats j (New fs)) = [5, 99]"
proof -
  show "maxLen (WithInnerRepeats j (New [cafe, long_name])) = 17"
    by (simp add: setters_frame maxLen_example)
  show "columnSize (WithInnerRepeats j (New fs)) = 10" "quantiles (WithInnerRepeats j (New fs)) = [5, 99]"
    by (simp_all add: WithInnerRepeats_def New_def DefaultQuantiles_def)
qed

subsection \<open>Inner repeats\<close>

text \<open>
  C4. With an inner-repeat multiplier \<open>k\<close> above one, \<^verbatim>\<open>Done\<close> writes, in the row of each
  function, the mean, the median and every quantile value collected for it divided by \<open>k\<close>
  (the division of \<^verbatim>\<open>time.Duration\<close>), and the sample count as collected. The collection
  does not read the multiplier, so the run with multiplier one collects the same values, and
  writes them undivided: the rows of the run with \<open>k\<close> are those of the run with one, with
  mean, median and quantiles divided by \<open>k\<close>.
\<close>

theorem inner_repeats_divide_results:
  assumes "1 < k"
  shows "stdout (Done ext (WithInnerRepeats k opts)) =
      header_row (WithInnerRepeats k opts)
        @ concat (map (\<lambda>f. case benchmarkOneFunc ext opts (Func f) of
              Inl p \<Rightarrow> []
            | Inr r \<Rightarrow>
                first_column (maxLen opts) (int (RuneCountInString (Name f))) (Name f)
                  @ tab @ pad_width (columnSize opts) (prettyPrintFn opts (mean r sdiv k))
                  @ tab @ pad_width (columnSize opts) (prettyPrintFn opts (median r sdiv k))
                  @ concat (map (\<lambda>q. tab @ pad_width (columnSize opts) (prettyPrintFn opts (q sdiv k)))
                      (quantile_values r))
                  @ tab @ pad_width (columnSize opts) (show_int (count r)) @ newline)
            (takeWhile (\<lambda>f. \<not> isl (benchmarkOneFunc ext opts (Func f))) (fns opts)))
    \<and> stdout (Done ext (WithInnerRepeats 1 opts)) =
      header_row (WithInnerRepeats 1 opts)
        @ concat (map (\<lambda>f. case benchmarkOneFunc ext opts (Func f) of
              Inl p \<Rightarrow> []
            | Inr r \<Rightarrow>
                first_column (maxLen opts) (int (RuneCountInString (Name f))) (Name f)
                  @ tab @ pad_width (columnSize opts) (prettyPrintFn opts (mean r))
                  @ tab @ pad_width (columnSize opts) (prettyPrintFn opts (median r))
                  @ concat (map (\<lambda>q. tab @ pad_width (columnSize opts) (prettyPrintFn opts q))
                      (quantile_values r))
                  @ tab @ pad_width (columnSize opts) (show_int (count r)) @ newline)
            (takeWhile (\<lambda>f. \<not> isl (benchmarkOneFunc ext opts (Func f))) (fns opts)))
    \<and> (\<forall>fn. benchmarkOneFunc ext (WithInnerRepeats k opts) fn = benchmarkOneFunc ext opts fn
           \<and> benchmarkOneFunc ext (WithInnerRepeats 1 opts) fn = benchmarkOneFunc ext opts fn)
    \<and> (\<forall>r. scale_results (innerRepeats (WithInnerRepeats 1 opts)) r = r
           \<and> scale_results (innerRepeats (WithInnerRepeats k opts)) r =
               \<lparr>mean = mean r sdiv k, median = median r sdiv k,
                quantile_values = map (\<lambda>q. q sdiv k) (quantile_values r), count = count r\<rparr>)"
proof (intro conjI allI)
  show "stdout (Done ext (WithInnerRepeats k opts)) =
      header_row (WithInnerRepeats k opts)
        @ concat (map (\<lambda>f. case benchmarkOneFunc ext opts (Func f) of
              Inl p \<Rightarrow> []
            | Inr r \<Rightarrow>
                first_column (maxLen opts) (int (RuneCountInString (Name f))) (Name f)
                  @ tab @ pad_width (columnSize opts) (prettyPrintFn opts (mean r sdiv k))
                  @ tab @ pad_width (columnSize opts) (prettyPrintFn opts (median r sdiv k))
                  @ concat (map (\<lambda>q. tab @ pad_width (columnSize opts) (prettyPrintFn opts (q sdiv k)))
                      (quantile_values r))
                  @ tab @ pad_width (columnSize opts) (show_int (count r)) @ newline)
            (takeWhile (\<lambda>f. \<not> isl (benchmarkOneFunc ext opts (Func f))) (fns opts)))"
    unfolding Done_report benchmarkOneFunc_frame setters_frame benchmark_row_divided [OF assms]
    by simp
  have one: "benchmark_row (WithInnerRepeats 1 opts) rc name (scale_results 1 r)
       = first_column (maxLen opts) rc name
           @ tab @ pad_width (columnSize opts) (prettyPrintFn opts (mean r))
           @ tab @ pad_width (columnSize opts) (prettyPrintFn opts (median r))
           @ concat (map (\<lambda>q. tab @ pad_width (columnSize opts) (prettyPrintFn opts q))
               (quantile_values r))
           @ tab @ pad_width (columnSize opts) (show_int (count r)) @ newline" for rc name r
    using benchmark_row_undivided [of "WithInnerRepeats 1 opts" rc name r]
    by (simp add: setters_frame) (simp add: WithInnerRepeats_def)
  show "stdout (Done ext (WithInnerRepeats 1 opts)) =
      header_row (WithInnerRepeats 1 opts)
        @ concat (map (\<lambda>f. case benchmarkOneFunc ext opts (Func f) of
              Inl p \<Rightarrow> []
            | Inr r \<Rightarrow>
                first_column (maxLen opts) (int (RuneCountInString (Name f))) (Name f)
                  @ tab @ pad_width (columnSize opts) (prettyPrintFn opts (mean r))
                  @ tab @ pad_width (columnSize opts) (prettyPrintFn opts (median r))
                  @ concat (map (\<lambda>q. tab @ pad_width (columnSize opts) (prettyPrintFn opts q))
                      (quantile_values r))
                  @ tab @ pad_width (columnSize opts) (show_int (count r)) @ newline)
            (takeWhile (\<lambda>f. \<not> isl (benchmarkOneFunc ext opts (Func f))) (fns opts)))"
    unfolding Done_report benchmarkOneFunc_frame setters_frame one
    by simp
next
  fix r
  show "scale_results (innerRepeats (WithInnerRepeats 1 opts)) r = r"
    by (simp add: setters_frame scale_results_def)
  show "scale_results (innerRepeats (WithInnerRepeats k opts)) r =
      \<lparr>mean = mean r sdiv k, median = median r sdiv k,
       quantile_values = map (\<lambda>q. q sdiv k) (quantile_values r), count = count r\<rparr>"
    using assms by (simp add: setters_frame scale_results_def)
qed (simp_all add: benchmarkOneFunc_frame)

theorem inner_repeats_divide_results_witness:
  "(1::int) < 10
   \<and> stdout (Done last_sample_estimator (WithInnerRepeats 10 (New [cafe, long_name]))) =
       ''Benchmarks:'' @ spaces 6 @ tab @ ''      Mean'' @ tab @ ''    Median'' @ tab @ ''   5%-tile''
         @ tab @ ''  99%-tile'' @ tab @ '' Runs(x10)'' @ newline
         @ Name cafe @ spaces 13 @ tab @ ''      20ns'' @ tab @ ''      30ns'' @ tab @ ''      30ns''
         @ tab @ ''      30ns'' @ tab @ ''         3'' @ newline
         @ Name long_name @ tab @ ''      10ns'' @ tab @ ''      10ns'' @ tab @ ''      10ns''
         @ tab @ ''      10ns'' @ tab @ ''         1'' @ newline
   \<and> stdout (Done last_sample_estimator (WithInnerRepeats 1 (New [cafe, long_name]))) =
       ''Benchmarks:'' @ spaces 6 @ tab @ ''      Mean'' @ tab @ ''    Median'' @ tab @ ''   5%-tile''
         @ tab @ ''  99%-tile'' @ tab @ ''     Count'' @ newline
         @ Name cafe @ spaces 13 @ tab @ ''     200ns'' @ tab @ ''     301ns'' @ tab @ ''     301ns''
         @ tab @ ''     301ns'' @ tab @ ''         3'' @ newline
         @ Name long_name @ tab @ ''     100ns'' @ tab @ ''     100ns'' @ tab @ ''     100ns''
         @ tab @ ''     100ns'' @ tab @ ''         1'' @ newline
   \<and> scale_results (innerRepeats (WithInnerRepeats 10 (New [cafe, long_name])))
        \<lparr>mean = 200, median = 301, quantile_values = [301, 301], count = 3\<rparr>
       = \<lparr>mean = 20, median = 30, quantile_values = [30, 30], count = 3\<rparr>"
proof -
  have header: "header_row (WithInnerRepeats 10 (New [cafe, long_name])) =
      ''Benchmarks:'' @ spaces 6 @ tab @ ''      Mean'' @ tab @ ''    Median'' @ tab @ ''   5%-tile''
        @ tab @ ''  99%-tile'' @ tab @ '' Runs(x10)'' @ newline"
    "header_row (WithInnerRepeats 1 (New [cafe, long_name])) =
      ''Benchmarks:'' @ spaces 6 @ tab @ ''      Mean'' @ tab @ ''    Median'' @ tab @ ''   5%-tile''
        @ tab @ ''  99%-tile'' @ tab @ ''     Count'' @ newline"
    by (simp_all add: example_header example_widths example_labels example_cells default_columns)
  have "(200::int) sdiv 10 = 20" "(301::int) sdiv 10 = 30" "(100::int) sdiv 10 = 10"
    by (simp_all add: signed_divide_int_def)
  then show ?thesis
    using inner_repeats_divide_results [of 10 last_sample_estimator "New [cafe, long_name]"]
    by (simp add: header example_options example_windows maxLen_example cafe_runes long_name_runes
        first_column_def example_durations example_cells)
qed

subsection \<open>The first column of the report\<close>

text \<open>
  C7. The width of the first column is one value, \<^verbatim>\<open>maxLen\<close>: the maximum of the length of
  the header label and of the rune counts of the names. \<^verbatim>\<open>Done\<close> writes the header label and,
  in each row, the name of the function of that row, each followed by spaces up to that many
  runes, whatever its length in bytes, and then by the tab that starts the next column.
\<close>

theorem first_column_shared_width:
  "maxLen opts = Max (insert (int (length header_label))
                       ((\<lambda>namedFn. int (RuneCountInString (Name namedFn))) ` set (fns opts)))
   \<and> zip (fns opts) (runeCount opts)
       = map (\<lambda>namedFn. (namedFn, int (RuneCountInString (Name namedFn)))) (fns opts)
   \<and> RuneCountInString (first_column (maxLen opts) (int (length header_label)) header_label)
       = nat (maxLen opts)
   \<and> (\<exists>columns. header_row opts
          = first_column (maxLen opts) (int (length header_label)) header_label @ tab @ columns)
   \<and> (\<forall>namedFn \<in> set (fns opts).
         first_column (maxLen opts) (int (RuneCountInString (Name namedFn))) (Name namedFn)
           = Name namedFn @ spaces (nat (maxLen opts) - RuneCountInString (Name namedFn))
         \<and> RuneCountInString
             (first_column (maxLen opts) (int (RuneCountInString (Name namedFn))) (Name namedFn))
           = nat (maxLen opts)
         \<and> (\<forall>r. \<exists>columns. benchmark_row opts (int (RuneCountInString (Name namedFn))) (Name namedFn) r
               = first_column (maxLen opts) (int (RuneCountInString (Name namedFn))) (Name namedFn)
                   @ tab @ columns))
   \<and> RuneCountInString (header_label @ spaces (nat (maxLen opts) - length header_label))
       = nat (maxLen opts)
   \<and> (\<forall>namedFn \<in> set (fns opts).
         RuneCountInString (Name namedFn @ spaces (nat (maxLen opts) - RuneCountInString (Name namedFn)))
           = nat (maxLen opts))
   \<and> stdout (Done ext opts) =
        (header_label @ spaces (nat (maxLen opts) - length header_label))
          @ tab @ pad_width (columnSize opts) ''Mean''
          @ tab @ pad_width (columnSize opts) ''Median''
          @ concat (map (\<lambda>q. tab @ pad_width (columnSize opts) (show_int q @ ''%-tile'')) (quantiles opts))
          @ tab @ pad_width (columnSize opts) (countStr opts) @ newline
          @ concat (map (\<lambda>namedFn. case benchmarkOneFunc ext opts (Func namedFn) of
                Inl p \<Rightarrow> []
              | Inr r \<Rightarrow>
                  (Name namedFn @ spaces (nat (maxLen opts) - RuneCountInString (Name namedFn)))
                    @ tab @ pad_width (columnSize opts)
                              (prettyPrintFn opts (mean (scale_results (innerRepeats opts) r)))
                    @ tab @ pad_width (columnSize opts)
                              (prettyPrintFn opts (median (scale_results (innerRepeats opts) r)))
                    @ concat (map (\<lambda>q. tab @ pad_width (columnSize opts) (prettyPrintFn opts q))
                        (quantile_values (scale_results (innerRepeats opts) r)))
                    @ tab @ pad_width (columnSize opts)
                              (show_int (count (scale_results (innerRepeats opts) r)))
                    @ newline)
              (takeWhile (\<lambda>namedFn. \<not> isl (benchmarkOneFunc ext opts (Func namedFn))) (fns opts)))"
proof (intro conjI ballI allI)
  show "maxLen opts = Max (insert (int (length header_label))
          ((\<lambda>namedFn. int (RuneCountInString (Name namedFn))) ` set (fns opts)))"
    by (simp add: maxLen_Max header_label_def)
  show "zip (fns opts) (runeCount opts)
      = map (\<lambda>namedFn. (namedFn, int (RuneCountInString (Name namedFn)))) (fns opts)"
    by (simp add: runeCount_def zip_map2 zip_same_conv_map)
  have len: "length header_label = 11"
    by (simp add: header_label_def)
  have hdr: "first_column (maxLen opts) (int (length header_label)) header_label
      = header_label @ spaces (nat (maxLen opts) - length header_label)"
    using maxLen_ge(1) [of opts] first_column_spaces [of 11 "maxLen opts" header_label]
    by (simp add: len nat_diff_distrib')
  show h1: "RuneCountInString (header_label @ spaces (nat (maxLen opts) - length header_label))
      = nat (maxLen opts)"
    using maxLen_ge(1) [of opts]
    by (simp add: RuneCountInString_append_spaces RuneCountInString_header_label len)
  then show "RuneCountInString (first_column (maxLen opts) (int (length header_label)) header_label)
      = nat (maxLen opts)"
    by (simp only: hdr)
  show "\<exists>columns. header_row opts
      = first_column (maxLen opts) (int (length header_label)) header_label @ tab @ columns"
    by (simp add: header_row_def)
  have name: "first_column (maxLen opts) (int (RuneCountInString (Name f))) (Name f)
      = Name f @ spaces (nat (maxLen opts) - RuneCountInString (Name f))"
    if "f \<in> set (fns opts)" for f
    using maxLen_ge(2) [OF that] by (simp add: first_column_spaces nat_diff_distrib')
  have rows: "concat (map (\<lambda>f. case benchmarkOneFunc ext opts (Func f) of
        Inl p \<Rightarrow> []
      | Inr r \<Rightarrow> benchmark_row opts (int (RuneCountInString (Name f))) (Name f)
                   (scale_results (innerRepeats opts) r))
      (takeWhile (\<lambda>f. \<not> isl (benchmarkOneFunc ext opts (Func f))) (fns opts)))
    = concat (map (\<lambda>namedFn. case benchmarkOneFunc ext opts (Func namedFn) of
        Inl p \<Rightarrow> []
      | Inr r \<Rightarrow>
          (Name namedFn @ spaces (nat (maxLen opts) - RuneCountInString (Name namedFn)))
            @ tab @ pad_width (columnSize opts)
                      (prettyPrintFn opts (mean (scale_results (innerRepeats opts) r)))
            @ tab @ pad_width (columnSize opts)
                      (prettyPrintFn opts (median (scale_results (innerRepeats opts) r)))
            @ concat (map (\<lambda>q. tab @ pad_width (columnSize opts) (prettyPrintFn opts q))
                (quantile_values (scale_results (innerRepeats opts) r)))
            @ tab @ pad_width (columnSize opts)
                      (show_int (count (scale_results (innerRepeats opts) r)))
            @ newline)
      (takeWhile (\<lambda>namedFn. \<not> isl (benchmarkOneFunc ext opts (Func namedFn))) (fns opts)))"
  proof (rule concat_map_cong)
    fix f
    assume "f \<in> set (takeWhile (\<lambda>f. \<not> isl (benchmarkOneFunc ext opts (Func f))) (fns opts))"
    then have "f \<in> set (fns opts)"
      by (rule set_takeWhileD [THEN conjunct1])
    then show "(case benchmarkOneFunc ext opts (Func f) of
        Inl p \<Rightarrow> []
      | Inr r \<Rightarrow> benchmark_row opts (int (RuneCountInString (Name f))) (Name f)
                   (scale_results (innerRepeats opts) r))
      = (case benchmarkOneFunc ext opts (Func f) of
        Inl p \<Rightarrow> []
      | Inr r \<Rightarrow>
          (Name f @ spaces (nat (maxLen opts) - RuneCountInString (Name f)))
            @ tab @ pad_width (columnSize opts)
                      (prettyPrintFn opts (mean (scale_results (innerRepeats opts) r)))
            @ tab @ pad_width (columnSize opts)
                      (prettyPrintFn opts (median (scale_results (innerRepeats opts) r)))
            @ concat (map (\<lambda>q. tab @ pad_width (columnSize opts) (prettyPrintFn opts q))
                (quantile_values (scale_results (innerRepeats opts) r)))
            @ tab @ pad_width (columnSize opts)
                      (show_int (count (scale_results (innerRepeats opts) r)))
            @ newline)"
      by (cases "benchmarkOneFunc ext opts (Func f)") (simp_all add: benchmark_row_def name)
  qed
  show "stdout (Done ext opts) =
      (header_label @ spaces (nat (maxLen opts) - length header_label))
        @ tab @ pad_width (columnSize opts) ''Mean''
        @ tab @ pad_width (columnSize opts) ''Median''
        @ concat (map (\<lambda>q. tab @ pad_width (columnSize opts) (show_int q @ ''%-tile'')) (quantiles opts))
        @ tab @ pad_width (columnSize opts) (countStr opts) @ newline
        @ concat (map (\<lambda>namedFn. case benchmarkOneFunc ext opts (Func namedFn) of
              Inl p \<Rightarrow> []
            | Inr r \<Rightarrow>
                (Name namedFn @ spaces (nat (maxLen opts) - RuneCountInString (Name namedFn)))
                  @ tab @ pad_width (columnSize opts)
                            (prettyPrintFn opts (mean (scale_results (innerRepeats opts) r)))
                  @ tab @ pad_width (columnSize opts)
                            (prettyPrintFn opts (median (scale_results (innerRepeats opts) r)))
                  @ concat (map (\<lambda>q. tab @ pad_width (columnSize opts) (prettyPrintFn opts q))
                      (quantile_values (scale_results (innerRepeats opts) r)))
                  @ tab @ pad_width (columnSize opts)
                            (show_int (count (scale_results (innerRepeats opts) r)))
                  @ newline)
            (takeWhile (\<lambda>namedFn. \<not> isl (benchmarkOneFunc ext opts (Func namedFn))) (fns opts)))"
    unfolding Done_report rows by (simp add: header_row_def hdr)
next
  fix namedFn
  assume mem: "namedFn \<in> set (fns opts)"
  then have le: "int (RuneCountInString (Name namedFn)) \<le> maxLen opts"
    by (rule maxLen_ge(2))
  then show eq: "first_column (maxLen opts) (int (RuneCountInString (Name namedFn))) (Name namedFn)
      = Name namedFn @ spaces (nat (maxLen opts) - RuneCountInString (Name namedFn))"
    by (simp add: first_column_spaces nat_diff_distrib')
  show "RuneCountInString
      (first_column (maxLen opts) (int (RuneCountInString (Name namedFn))) (Name namedFn))
      = nat (maxLen opts)"
    using le by (simp add: eq RuneCountInString_append_spaces)
  show "RuneCountInString (Name namedFn @ spaces (nat (maxLen opts) - RuneCountInString (Name namedFn)))
      = nat (maxLen opts)"
    using le by (simp add: RuneCountInString_append_spaces)
  show "\<exists>columns. benchmark_row opts (int (RuneCountInString (Name namedFn))) (Name namedFn) r
      = first_column (maxLen opts) (int (RuneCountInString (Name namedFn))) (Name namedFn)
          @ tab @ columns" for r
    by (simp add: benchmark_row_def)
qed

theorem first_column_shared_width_witness:
  "cafe \<in> set (fns (New [cafe, long_name]))
   \<and> length (Name cafe) = 5
   \<and> maxLen (New [cafe, long_name]) = 17
   \<and> first_column (maxLen (New [cafe, long_name])) (int (RuneCountInString (Name cafe))) (Name cafe)
       = Name cafe @ spaces 13
   \<and> RuneCountInString
       (first_column (maxLen (New [cafe, long_name])) (int (RuneCountInString (Name cafe))) (Name cafe))
       = 17
   \<and> RuneCountInString
       (first_column (maxLen (New [cafe, long_name])) (int (length header_label)) header_label)
       = 17
   \<and> RuneCountInString (Name cafe @ spaces 13) = 17
   \<and> RuneCountInString (Name long_name) = 17
   \<and> stdout (Done last_sample_estimator (New [cafe, long_name])) =
       ''Benchmarks:'' @ spaces 6 @ tab @ ''      Mean'' @ tab @ ''    Median'' @ tab @ ''   5%-tile''
         @ tab @ ''  99%-tile'' @ tab @ ''     Count'' @ newline
         @ Name cafe @ spaces 13 @ tab @ ''     200ns'' @ tab @ ''     301ns'' @ tab @ ''     301ns''
         @ tab @ ''     301ns'' @ tab @ ''         3'' @ newline
         @ Name long_name @ tab @ ''     100ns'' @ tab @ ''     100ns'' @ tab @ ''     100ns''
         @ tab @ ''     100ns'' @ tab @ ''         1'' @ newline"
proof -
  have "scale_results 1 r = r" for r
    by (simp add: scale_results_def)
  moreover have "spaces 0 = []"
    by (simp add: spaces_def)
  ultimately show ?thesis
    using first_column_shared_width [of "New [cafe, long_name]" last_sample_estimator]
    by (simp add: example_options example_windows maxLen_example cafe_runes long_name_runes
        RuneCountInString_append_spaces header_label_def default_columns example_labels
        example_durations example_cells)
qed

subsection \<open>Configuration values\<close>

text \<open>
  C3, as the claim states it, fails: the setters have no error result and no check. A
  negative warm-up count, an inner-repeat multiplier of zero and a negative duration are
  stored, and the run with the first two goes on to time the function and ends without a
  panic.
\<close>

theorem negative_configuration_accepted:
  "warmUps (WithWarmUps (- 1) (New [cafe])) = - 1
   \<and> innerRepeats (WithInnerRepeats 0 (New [cafe])) = 0
   \<and> duration (WithDuration (- 1) (New [cafe])) = - 1
   \<and> failure (Done last_sample_estimator (WithInnerRepeats 0 (WithWarmUps (- 1) (New [cafe])))) = None
   \<and> invocations (Done last_sample_estimator (WithInnerRepeats 0 (WithWarmUps (- 1) (New [cafe])))) = 3"
proof -
  let ?opts = "WithInnerRepeats 0 (WithWarmUps (- 1) (New [cafe]))"
  have "fns ?opts = [cafe]" "quantiles ?opts = [5, 99]" "warmUps ?opts = - 1"
    by (simp_all add: WithInnerRepeats_def WithWarmUps_def New_def DefaultQuantiles_def)
  then show ?thesis
    by (simp add: Done_single window_cafe)
      (simp add: WithInnerRepeats_def WithWarmUps_def WithDuration_def New_def cafe_def)
qed

text \<open>
  C3, amended. \<^verbatim>\<open>WithWarmUps\<close>, \<^verbatim>\<open>WithInnerRepeats\<close> and \<^verbatim>\<open>WithDuration\<close> store any
  value. In the run, a warm-up count below one makes no warm-up call for any function (the
  only calls are those of the collection windows), and an inner-repeat multiplier below two
  leaves the results of every row undivided and the last column labelled \<^verbatim>\<open>Count\<close>.
\<close>

theorem configuration_is_not_validated:
  "warmUps (WithWarmUps n opts) = n
   \<and> innerRepeats (WithInnerRepeats k opts) = k
   \<and> duration (WithDuration d opts) = d
   \<and> (n \<le> 0 \<longrightarrow>
        invocations (Done ext (WithWarmUps n opts)) =
          sum_list (map (\<lambda>f. length (Func f (duration opts)))
            (takeWhile (\<lambda>f. \<not> isl (benchmarkOneFunc ext opts (Func f))) (fns opts)
              @ take 1 (dropWhile (\<lambda>f. \<not> isl (benchmarkOneFunc ext opts (Func f))) (fns opts)))))
   \<and> (k \<le> 1 \<longrightarrow>
        stdout (Done ext (WithInnerRepeats k opts)) =
          first_column (maxLen opts) (int (length header_label)) header_label
            @ tab @ pad_width (columnSize opts) ''Mean''
            @ tab @ pad_width (columnSize opts) ''Median''
            @ concat (map (\<lambda>q. tab @ pad_width (columnSize opts) (show_int q @ ''%-tile'')) (quantiles opts))
            @ tab @ pad_width (columnSize opts) ''Count'' @ newline
            @ concat (map (\<lambda>f. case benchmarkOneFunc ext opts (Func f) of
                  Inl p \<Rightarrow> []
                | Inr r \<Rightarrow>
                    first_column (maxLen opts) (int (RuneCountInString (Name f))) (Name f)
                      @ tab @ pad_width (columnSize opts) (prettyPrintFn opts (mean r))
                      @ tab @ pad_width (columnSize opts) (prettyPrintFn opts (median r))
                      @ concat (map (\<lambda>q. tab @ pad_width (columnSize opts) (prettyPrintFn opts q))
                          (quantile_values r))
                      @ tab @ pad_width (columnSize opts) (show_int (count r)) @ newline)
                (takeWhile (\<lambda>f. \<not> isl (benchmarkOneFunc ext opts (Func f))) (fns opts)))
        \<and> (\<forall>r. scale_results (innerRepeats (WithInnerRepeats k opts)) r = r)
        \<and> countStr (WithInnerRepeats k opts) = ''Count'')"
proof (intro conjI impI allI)
  show "warmUps (WithWarmUps n opts) = n" "innerRepeats (WithInnerRepeats k opts) = k"
    "duration (WithDuration d opts) = d"
    by (simp_all add: WithWarmUps_def WithInnerRepeats_def WithDuration_def)
next
  assume "n \<le> 0"
  then have "nat n = 0"
    by simp
  then show "invocations (Done ext (WithWarmUps n opts)) =
      sum_list (map (\<lambda>f. length (Func f (duration opts)))
        (takeWhile (\<lambda>f. \<not> isl (benchmarkOneFunc ext opts (Func f))) (fns opts)
          @ take 1 (dropWhile (\<lambda>f. \<not> isl (benchmarkOneFunc ext opts (Func f))) (fns opts))))"
    unfolding Done_report benchmarkOneFunc_frame setters_frame by simp
next
  assume k: "k \<le> 1"
  have row: "benchmark_row (WithInnerRepeats k opts) rc name (scale_results k r)
       = first_column (maxLen opts) rc name
           @ tab @ pad_width (columnSize opts) (prettyPrintFn opts (mean r))
           @ tab @ pad_width (columnSize opts) (prettyPrintFn opts (median r))
           @ concat (map (\<lambda>q. tab @ pad_width (columnSize opts) (prettyPrintFn opts q))
               (quantile_values r))
           @ tab @ pad_width (columnSize opts) (show_int (count r)) @ newline" for rc name r
    using benchmark_row_undivided [of "WithInnerRepeats k opts" rc name r] k
    by (simp add: setters_frame) (simp add: WithInnerRepeats_def)
  have hdr: "header_row (WithInnerRepeats k opts) =
      first_column (maxLen opts) (int (length header_label)) header_label
        @ tab @ pad_width (columnSize opts) ''Mean''
        @ tab @ pad_width (columnSize opts) ''Median''
        @ concat (map (\<lambda>q. tab @ pad_width (columnSize opts) (show_int q @ ''%-tile'')) (quantiles opts))
        @ tab @ pad_width (columnSize opts) ''Count'' @ newline"
    using header_row_Count [of "WithInnerRepeats k opts"] k
    by (simp add: setters_frame) (simp add: WithInnerRepeats_def)
  show "stdout (Done ext (WithInnerRepeats k opts)) =
      first_column (maxLen opts) (int (length header_label)) header_label
        @ tab @ pad_width (columnSize opts) ''Mean''
        @ tab @ pad_width (columnSize opts) ''Median''
        @ concat (map (\<lambda>q. tab @ pad_width (columnSize opts) (show_int q @ ''%-tile'')) (quantiles opts))
        @ tab @ pad_width (columnSize opts) ''Count'' @ newline
        @ concat (map (\<lambda>f. case benchmarkOneFunc ext opts (Func f) of
              Inl p \<Rightarrow> []
            | Inr r \<Rightarrow>
                first_column (maxLen opts) (int (RuneCountInString (Name f))) (Name f)
                  @ tab @ pad_width (columnSize opts) (prettyPrintFn opts (mean r))
                  @ tab @ pad_width (columnSize opts) (prettyPrintFn opts (median r))
                  @ concat (map (\<lambda>q. tab @ pad_width (columnSize opts) (prettyPrintFn opts q))
                      (quantile_values r))
                  @ tab @ pad_width (columnSize opts) (show_int (count r)) @ newline)
            (takeWhile (\<lambda>f. \<not> isl (benchmarkOneFunc ext opts (Func f))) (fns opts)))"
    unfolding Done_report benchmarkOneFunc_frame setters_frame row hdr by simp
  show "scale_results (innerRepeats (WithInnerRepeats k opts)) r = r" for r
    using k by (simp add: setters_frame scale_results_def)
  show "countStr (WithInnerRepeats k opts) = ''Count''"
    using k by (simp add: setters_frame countStr_def)
qed

theorem configuration_is_not_validated_witness:
  "(- 1 :: int) \<le> 0 \<and> (0 :: int) \<le> 1
   \<and> warmUps (WithWarmUps (- 1) (New [cafe, long_name])) = - 1
   \<and> innerRepeats (WithInnerRepeats 0 (New [cafe, long_name])) = 0
   \<and> duration (WithDuration (- 1) (New [cafe, long_name])) = - 1
   \<and> invocations (Done last_sample_estimator (WithWarmUps (- 1) (New [cafe, long_name]))) = 4
   \<and> stdout (Done last_sample_estimator (WithInnerRepeats 0 (New [cafe, long_name]))) =
       ''Benchmarks:'' @ spaces 6 @ tab @ ''      Mean'' @ tab @ ''    Median'' @ tab @ ''   5%-tile''
         @ tab @ ''  99%-tile'' @ tab @ ''     Count'' @ newline
         @ Name cafe @ spaces 13 @ tab @ ''     200ns'' @ tab @ ''     301ns'' @ tab @ ''     301ns''
         @ tab @ ''     301ns'' @ tab @ ''         3'' @ newline
         @ Name long_name @ tab @ ''     100ns'' @ tab @ ''     100ns'' @ tab @ ''     100ns''
         @ tab @ ''     100ns'' @ tab @ ''         1'' @ newline
   \<and> countStr (WithInnerRepeats 0 (New [cafe, long_name])) = ''Count''"
  using configuration_is_not_validated
    [of "- 1" "New [cafe, long_name]" 0 "- 1" last_sample_estimator]
  by (simp add: example_options example_windows example_samples maxLen_example cafe_runes
      long_name_runes first_column_def header_label_def default_columns example_durations
      example_cells)

end
